theory Spec2Isabelle
  imports Main
begin

section \<open>Cloud Functions REST client: data model\<close>

text \<open>
  The client translates each local intent (create, patch, delete, list, generateUploadUrl,
  getOperation) into one call of the HTTP helper \<open>api.request\<close> and maps the answer to a
  return value, a rejection and log lines. Every \<open>async\<close> function of the source is modelled
  by a function that returns the trace of its effects (requests issued and log lines, in
  order) together with the way its promise settles. The answer of the HTTP helper to the one
  request an operation issues is a parameter of the operation.
\<close>

definition API_VERSION :: string where
  "API_VERSION = ''v1''"

definition ERR_DEPLOYMENT_QUOTA_EXCEEDED_MESSAGE :: string where
  "ERR_DEPLOYMENT_QUOTA_EXCEEDED_MESSAGE =
     ''You have exceeded your deployment quota, please deploy your functions in '' @
     ''batches by using the --only flag, and wait a few minutes before deploying '' @
     ''again. Go to https://firebase.google.com/docs/cli/#partial_deploys to '' @
     ''learn more.''"

definition ERR_GENERATE_UPLOAD_URL_FAILURE_MESSAGE :: string where
  "ERR_GENERATE_UPLOAD_URL_FAILURE_MESSAGE =
     [CHR 0x0A, CHR 0x0A] @
     ''There was an issue deploying your functions. Verify that your project '' @
     ''has a Google App Engine instance setup at '' @
     ''https://console.cloud.google.com/appengine and try again. If this issue '' @
     ''persists, please contact support.''"

text \<open>A JavaScript object is the list of its own enumerable properties, in enumeration order.\<close>

datatype jsvalue =
    JString string
  | JNumber int
  | JObject "(string \<times> jsvalue) list"

type_synonym jsobject = "(string \<times> jsvalue) list"

record Target =
  functionName :: string
  locationName :: string
  projectId :: string

datatype OperationType = Create | Delete | Update

fun OperationType_value :: "OperationType \<Rightarrow> string" where
  "OperationType_value Create = ''create''"
| "OperationType_value Delete = ''delete''"
| "OperationType_value Update = ''update''"

text \<open>
  A function resource. \<open>name\<close> is the fully-qualified name; \<open>functionName\<close> is the property
  that \<open>listFunctions\<close> attaches (absent before); \<open>properties\<close> holds the other fields of
  \<open>CloudFunctionBase\<close>, the source code variant and the trigger.
\<close>

record CloudFunction =
  name :: string
  functionName :: "string option"
  properties :: jsobject

text \<open>
  The error type of the application. \<open>_.get(error, ["context", "response", "statusCode"])\<close>
  reads \<open>response_statusCode\<close> of the context, \<open>None\<close> when any step of the path is missing;
  \<open>context_function\<close> is the property \<open>function\<close> of the context.
\<close>

datatype ErrorContext =
  ErrorContext (response_statusCode: "int option") (context_function: "string option")

datatype FirebaseError =
  FirebaseError (message: string) (original: "FirebaseError option") (error_context: ErrorContext)

text \<open>
  What a promise of this module is rejected with: an error object, a bare message string
  (\<open>listFunctions\<close>), a promise object that is itself rejected with the given reason, or the
  \<open>ReferenceError\<close> that JavaScript throws when an identifier with no binding is evaluated
  (it carries the identifier).
\<close>

datatype thrown =
    ThrownError FirebaseError
  | ThrownMessage string
  | ThrownPromise thrown
  | ThrownReferenceError string

datatype 'a settled = Resolved 'a | Rejected thrown

record response_body =
  body_name :: "string option"
  body_functions :: "CloudFunction list option"
  body_uploadUrl :: "string option"

record response =
  body :: response_body

datatype payload = Descriptor CloudFunction

record request =
  http_method :: string
  path :: string
  auth :: bool
  json :: "bool option"
  retryCodes :: "int list option"
  updateMask :: "string option"
  data :: "payload option"

datatype level = Debug | Info | Warning

datatype event = Request request | Log level string

text \<open>The fields that \<open>deleteFunction\<close> reads of its parameter \<open>options\<close>.\<close>

record options =
  projectId :: string
  region :: string
  functionName :: string

text \<open>The record \<open>{ func, done, name, type }\<close> that the success handlers resolve with.\<close>

record operation =
  func :: string
  op_done :: bool
  op_name :: "string option"
  op_type :: string

section \<open>JavaScript string primitives\<close>

text \<open>
  \<open>s.lastIndexOf(c)\<close> for a one-character search string: the index of the last occurrence,
  \<open>-1\<close> when there is none. The scan keeps the current index and the last index found.
\<close>

fun lastIndexOf_from :: "char \<Rightarrow> string \<Rightarrow> int \<Rightarrow> int \<Rightarrow> int" where
  "lastIndexOf_from c [] i found = found"
| "lastIndexOf_from c (x # xs) i found =
     lastIndexOf_from c xs (i + 1) (if x = c then i else found)"

definition lastIndexOf :: "string \<Rightarrow> char \<Rightarrow> int" where
  "lastIndexOf s c = lastIndexOf_from c s 0 (- 1)"

text \<open>\<open>s.substring(start)\<close>: a negative start counts as 0, one beyond the end as the length.\<close>

definition substring :: "string \<Rightarrow> int \<Rightarrow> string" where
  "substring s start = drop (nat (max 0 start)) s"

section \<open>The operations\<close>

definition makePath :: "string \<Rightarrow> string \<Rightarrow> string option \<Rightarrow> string" where
  "makePath pid loc fname =
     (let projectPath = ''/'' @ API_VERSION @ ''/projects/'' @ pid;
          locationPath = projectPath @ ''/locations/'' @ loc;
          functionsPath = locationPath @ ''/functions''
      in case fname of
           Some f \<Rightarrow> functionsPath @ ''/'' @ f
         | None \<Rightarrow> functionsPath)"

text \<open>
  \<open>makeFirebaseError\<close> is an \<open>async\<close> function whose body always throws: it logs, and its
  promise is rejected with the new error. The model returns the log lines and that rejection
  reason. \<open>bold_yellow\<close> stands for the styling function \<open>clc.bold.yellow\<close>.
\<close>

definition makeFirebaseError ::
  "(string \<Rightarrow> string) \<Rightarrow> string \<Rightarrow> OperationType \<Rightarrow> FirebaseError \<Rightarrow> event list \<times> thrown" where
  "makeFirebaseError bold_yellow fname operationType error =
     (Log Warning (bold_yellow ''functions:'' @ '' failed to '' @ OperationType_value operationType
                     @ '' function '' @ fname)
      # (if response_statusCode (error_context error) = Some 429
         then [Log Debug (message error), Log Info ERR_DEPLOYMENT_QUOTA_EXCEEDED_MESSAGE]
         else [Log Info (message error)]),
      ThrownError
        (FirebaseError (''Failed to '' @ OperationType_value operationType @ '' function '' @ fname)
           (Some error) (ErrorContext None (Some fname))))"

definition generateUploadUrl ::
  "string \<Rightarrow> string \<Rightarrow> FirebaseError + response \<Rightarrow> event list \<times> string option settled" where
  "generateUploadUrl pid loc result =
     (let functionsPath = makePath pid loc None;
          generateUploadUrlPath = functionsPath @ '':generateUploadUrl'';
          req = \<lparr>http_method = ''POST'', path = generateUploadUrlPath, auth = True,
                 json = Some False, retryCodes = Some [503], updateMask = None, data = None\<rparr>
      in case result of
           Inr resp \<Rightarrow> ([Request req], Resolved (body_uploadUrl (body resp)))
         | Inl error \<Rightarrow>
             ([Request req, Log Info ERR_GENERATE_UPLOAD_URL_FAILURE_MESSAGE],
              Rejected (ThrownError error)))"

text \<open>
  In the \<open>catch\<close> block \<open>createFunction\<close> throws the promise that \<open>makeFirebaseError\<close>
  returns, so its own promise is rejected with that promise object.
\<close>

definition createFunction ::
  "(string \<Rightarrow> string) \<Rightarrow> Target \<Rightarrow> CloudFunction \<Rightarrow> FirebaseError + response
     \<Rightarrow> event list \<times> response_body settled" where
  "createFunction bold_yellow target cloudFunction result =
     (let functionsPath = makePath (Target.projectId target) (locationName target)
                            (Some (Target.functionName target));
          req = \<lparr>http_method = ''POST'', path = functionsPath, auth = True,
                 json = None, retryCodes = None, updateMask = None,
                 data = Some (Descriptor cloudFunction)\<rparr>
      in case result of
           Inr resp \<Rightarrow> ([Request req], Resolved (body resp))
         | Inl error \<Rightarrow>
             (case makeFirebaseError bold_yellow (name cloudFunction) Create error of
                (logged, reason) \<Rightarrow> (Request req # logged, Rejected (ThrownPromise reason))))"

text \<open>
  \<open>patchFunction\<close> is declared with the parameters \<open>{ projectId, locationName, functionName }\<close>
  and \<open>cloudFunction\<close>. After computing \<open>functionsPath\<close> its body evaluates
  \<open>options.sourceUploadUrl\<close>, and the module has no binding for \<open>options\<close>: it is not a
  parameter, not declared and not imported. Evaluating it throws a \<open>ReferenceError\<close>, with
  which the promise of the \<open>async\<close> function is rejected. Nothing after that point runs: no
  payload and no update mask are built, no request is issued and no line is logged, so the
  answer the HTTP helper would give is never consulted.
\<close>

definition patchFunction ::
  "Target \<Rightarrow> CloudFunction \<Rightarrow> FirebaseError + response \<Rightarrow> event list \<times> operation settled" where
  "patchFunction target cloudFunction result =
     (let functionsPath = makePath (Target.projectId target) (locationName target)
                            (Some (Target.functionName target))
      in ([], Rejected (ThrownReferenceError ''options'')))"

text \<open>
  The rejection handler of \<open>deleteFunction\<close> calls \<open>logAndRejectOperation\<close>, for which the
  module has no binding either: the handler throws a \<open>ReferenceError\<close> before it logs
  anything, and the promise is rejected with it.
\<close>

definition deleteFunction ::
  "options \<Rightarrow> FirebaseError + response \<Rightarrow> event list \<times> operation settled" where
  "deleteFunction opts result =
     (let location = ''projects/'' @ projectId opts @ ''/locations/'' @ region opts;
          fn = location @ ''/functions/'' @ functionName opts;
          endpoint = ''/'' @ API_VERSION @ ''/'' @ fn;
          req = \<lparr>http_method = ''DELETE'', path = endpoint, auth = True,
                 json = None, retryCodes = None, updateMask = None, data = None\<rparr>
      in case result of
           Inr resp \<Rightarrow>
             ([Request req],
              Resolved \<lparr>func = fn, op_done = False, op_name = body_name (body resp),
                        op_type = ''delete''\<rparr>)
         | Inl err \<Rightarrow>
             ([Request req], Rejected (ThrownReferenceError ''logAndRejectOperation'')))"

definition listFunctions ::
  "string \<Rightarrow> string \<Rightarrow> FirebaseError + response \<Rightarrow> event list \<times> CloudFunction list settled" where
  "listFunctions pid rgn result =
     (let endpoint = ''/'' @ API_VERSION @ ''/projects/'' @ pid @ ''/locations/'' @ rgn
                       @ ''/functions'';
          req = \<lparr>http_method = ''GET'', path = endpoint, auth = True,
                 json = None, retryCodes = None, updateMask = None, data = None\<rparr>
      in case result of
           Inr resp \<Rightarrow>
             (let functionsList = (case body_functions (body resp) of Some fs \<Rightarrow> fs | None \<Rightarrow> [])
              in ([Request req],
                  Resolved
                    (map (\<lambda>f. f\<lparr>CloudFunction.functionName :=
                                  Some (substring (name f) (lastIndexOf (name f) CHR ''/'' + 1))\<rparr>)
                       functionsList)))
         | Inl err \<Rightarrow>
             ([Request req,
               Log Debug (''[functions] failed to list functions for '' @ pid),
               Log Debug (''[functions] '' @ message err)],
              Rejected (ThrownMessage (message err))))"

text \<open>\<open>getOperation\<close> of operations.ts; \<open>target_name\<close> is \<open>target.name\<close>.\<close>

definition getOperation ::
  "string \<Rightarrow> FirebaseError + response \<Rightarrow> event list \<times> response_body settled" where
  "getOperation target_name result =
     (let req = \<lparr>http_method = ''GET'', path = ''/'' @ API_VERSION @ ''/'' @ target_name, auth = True,
                 json = None, retryCodes = None, updateMask = None, data = None\<rparr>
      in case result of
           Inr resp \<Rightarrow> ([Request req], Resolved (body resp))
         | Inl error \<Rightarrow>
             ([Request req,
               Log Debug (''[functions] failed to get status of operation: '' @ target_name),
               Log Debug (''[functions] '' @ message error)],
              Rejected (ThrownError error)))"

section \<open>Reading traces, and the vocabulary of the properties\<close>

fun log_lines :: "event list \<Rightarrow> (level \<times> string) list" where
  "log_lines [] = []"
| "log_lines (Log l s # es) = (l, s) # log_lines es"
| "log_lines (Request r # es) = log_lines es"

fun requests :: "event list \<Rightarrow> request list" where
  "requests [] = []"
| "requests (Request r # es) = r # requests es"
| "requests (Log l s # es) = requests es"

text \<open>
  The tail segment of a name, in the words of the specification: what follows the final
  separator \<open>/\<close> (the whole name when it has no separator).
\<close>

definition tail_segment :: "string \<Rightarrow> string" where
  "tail_segment s = rev (takeWhile (\<lambda>c. c \<noteq> CHR ''/'') (rev s))"

subsection \<open>Concrete inputs\<close>

definition target0 :: Target where
  "target0 = \<lparr>Target.functionName = ''foo'', locationName = ''us-central1'',
               Target.projectId = ''proj''\<rparr>"

definition descriptor0 :: CloudFunction where
  "descriptor0 = \<lparr>name = ''foo'', CloudFunction.functionName = None,
                   properties = [(''httpsTrigger'', JObject [])]\<rparr>"

definition error429 :: FirebaseError where
  "error429 = FirebaseError ''Quota exceeded'' None (ErrorContext (Some 429) None)"

definition response0 :: response where
  "response0 = \<lparr>body = \<lparr>body_name = Some ''operations/op1'', body_functions = None,
                          body_uploadUrl = None\<rparr>\<rparr>"

definition options0 :: options where
  "options0 = \<lparr>projectId = ''proj'', region = ''us-central1'', functionName = ''foo''\<rparr>"

text \<open>A descriptor with an event trigger, and one with the three optional fields set.\<close>

definition descriptor_event :: CloudFunction where
  "descriptor_event =
     \<lparr>name = ''foo'', CloudFunction.functionName = None,
      properties = [(''eventTrigger'',
                     JObject [(''eventType'', JString ''google.pubsub.topic.publish''),
                              (''resource'', JString ''projects/proj/topics/t'')])]\<rparr>"

definition descriptor_optional :: CloudFunction where
  "descriptor_optional =
     \<lparr>name = ''foo'', CloudFunction.functionName = None,
      properties = [(''runtime'', JString ''nodejs10''),
                    (''availableMemoryMb'', JNumber 256),
                    (''timeout'', JString ''60s''),
                    (''httpsTrigger'', JObject [])]\<rparr>"

section \<open>Auxiliary facts\<close>

lemma lastIndexOf_from_absent:
  "c \<notin> set xs \<Longrightarrow> lastIndexOf_from c xs i found = found"
  by (induction xs arbitrary: i found) auto

lemma lastIndexOf_from_last:
  "c \<notin> set suf \<Longrightarrow> lastIndexOf_from c (pre @ c # suf) i found = i + int (length pre)"
proof (induction pre arbitrary: i found)
  case Nil
  then show ?case by (simp add: lastIndexOf_from_absent)
next
  case (Cons x pre)
  then show ?case by simp
qed

lemma substring_lastIndexOf:
  "substring s (lastIndexOf s c + 1) = rev (takeWhile (\<lambda>x. x \<noteq> c) (rev s))"
proof (cases "c \<in> set s")
  case True
  then obtain pre suf where s: "s = pre @ c # suf" and suf: "c \<notin> set suf"
    by (meson split_list_last)
  have "lastIndexOf s c = int (length pre)"
    using lastIndexOf_from_last [OF suf, of pre 0 "- 1"] by (simp add: lastIndexOf_def s)
  then have "substring s (lastIndexOf s c + 1) = suf"
    by (simp add: substring_def s nat_add_distrib)
  moreover have "takeWhile (\<lambda>x. x \<noteq> c) (rev s) = rev suf"
    using suf by (auto simp add: s takeWhile_tail)
  ultimately show ?thesis by simp
next
  case False
  then have idx: "lastIndexOf s c = - 1"
    by (simp add: lastIndexOf_def lastIndexOf_from_absent)
  have whole: "takeWhile (\<lambda>x. x \<noteq> c) (rev s) = rev s"
    using False by (auto simp add: takeWhile_eq_all_conv)
  show ?thesis unfolding whole by (simp add: idx substring_def)
qed

lemma tail_segment_without_separator:
  assumes "CHR ''/'' \<notin> set s"
  shows "tail_segment s = s"
proof -
  have "\<forall>x\<in>set (rev s). x \<noteq> CHR ''/''"
    using assms by auto
  then have "takeWhile (\<lambda>c. c \<noteq> CHR ''/'') (rev s) = rev s"
    by (rule takeWhile_eq_all_conv [THEN iffD2])
  then show ?thesis
    by (simp only: tail_segment_def rev_rev_ident)
qed

lemma tail_segment_after_final_separator:
  assumes "CHR ''/'' \<notin> set suf"
  shows "tail_segment (pre @ ''/'' @ suf) = suf"
proof -
  have "takeWhile (\<lambda>c. c \<noteq> CHR ''/'') (rev (pre @ ''/'' @ suf)) =
          takeWhile (\<lambda>c. c \<noteq> CHR ''/'') (rev suf)"
    by (simp add: takeWhile_tail)
  then have "tail_segment (pre @ ''/'' @ suf) = tail_segment suf"
    by (simp only: tail_segment_def)
  then show ?thesis
    using tail_segment_without_separator [OF assms] by simp
qed

lemma tail_segment_example:
  "tail_segment ''projects/p/locations/l/functions/fooBar'' = ''fooBar''"
  by (simp add: tail_segment_def)

lemma createFunction_request_path:
  "map path (requests (fst (createFunction bold_yellow target cf result))) =
     [makePath (Target.projectId target) (locationName target) None
        @ ''/'' @ Target.functionName target]"
  by (simp add: createFunction_def makeFirebaseError_def makePath_def Let_def
        split: sum.splits)

text \<open>What \<open>createFunction\<close> logs when the request fails.\<close>

lemma createFunction_failure_log_lines:
  "log_lines (fst (createFunction bold_yellow target cloudFunction (Inl err))) =
     (Warning, bold_yellow ''functions:'' @ '' failed to create function '' @ name cloudFunction)
     # (if response_statusCode (error_context err) = Some 429
        then [(Debug, message err), (Info, ERR_DEPLOYMENT_QUOTA_EXCEEDED_MESSAGE)]
        else [(Info, message err)])"
  by (simp add: createFunction_def makeFirebaseError_def)

text \<open>Every call of \<open>patchFunction\<close> ends the same way, whatever its arguments.\<close>

lemma patchFunction_always_rejects:
  "patchFunction target cloudFunction result = ([], Rejected (ThrownReferenceError ''options''))"
  by (simp add: patchFunction_def)

text \<open>The success handler of \<open>deleteFunction\<close> resolves with the operation record.\<close>

lemma deleteFunction_operation_record:
  "snd (deleteFunction opts (Inr resp)) =
     Resolved \<lparr>func = ''projects/'' @ projectId opts @ ''/locations/'' @ region opts
                       @ ''/functions/'' @ functionName opts,
               op_done = False, op_name = body_name (body resp), op_type = ''delete''\<rparr>"
  by (simp add: deleteFunction_def Let_def)

section \<open>Resource paths\<close>

text \<open>
  C9. For every project id \<open>p\<close> and location \<open>l\<close>, \<open>makePath\<close> returns
  \<open>/v1/projects/p/locations/l/functions\<close> when no function name is supplied, and
  \<open>/v1/projects/p/locations/l/functions/f\<close> when the function name \<open>f\<close> is supplied.
\<close>

theorem makePath_paths:
  "makePath p l None = ''/v1/projects/'' @ p @ ''/locations/'' @ l @ ''/functions'' \<and>
   makePath p l (Some f) = ''/v1/projects/'' @ p @ ''/locations/'' @ l @ ''/functions/'' @ f"
  by (simp add: makePath_def API_VERSION_def)

text \<open>
  C1. The create operation is claimed to post to the collection path
  \<open>/v1/projects/{projectId}/locations/{locationName}/functions\<close>. \<open>createFunction\<close> passes
  the function name of the target to \<open>makePath\<close>, so the request goes to the item path: for the
  target \<open>{projectId: "proj", locationName: "us-central1", functionName: "foo"}\<close> the one
  request issued is a POST to \<open>/v1/projects/proj/locations/us-central1/functions/foo\<close>.
\<close>

theorem createFunction_posts_to_item_path:
  "map path (requests (fst (createFunction (\<lambda>s. s) target0 descriptor0 (Inr response0)))) =
     [''/v1/projects/proj/locations/us-central1/functions/foo''] \<and>
   map http_method (requests (fst (createFunction (\<lambda>s. s) target0 descriptor0 (Inr response0)))) =
     [''POST'']"
  by (simp add: createFunction_def makePath_def API_VERSION_def target0_def)

section \<open>The update mask of patch\<close>

text \<open>
  C2. The update mask built by the patch operation is claimed to contain either the paths
  \<open>eventTrigger.<subkey>\<close> of the supplied event trigger or the single path
  \<open>httpsTrigger\<close>, never both kinds and never neither. \<open>patchFunction\<close> builds no mask: for
  a descriptor with an event trigger it issues no request, so no update mask of either kind
  reaches the server, and its promise is rejected with the \<open>ReferenceError\<close> for \<open>options\<close>.
\<close>

theorem patchFunction_event_trigger_no_mask:
  "map updateMask (requests (fst (patchFunction target0 descriptor_event (Inr response0)))) = [] \<and>
   snd (patchFunction target0 descriptor_event (Inr response0)) =
     Rejected (ThrownReferenceError ''options'')"
  by (simp add: patchFunction_def)

text \<open>
  C3. The update mask is claimed to contain the source-reference, name and labels paths
  always, and the path of each optional field \<open>runtime\<close>, \<open>availableMemoryMb\<close> and
  \<open>timeout\<close> exactly when the field is present. For a descriptor that sets all three
  optional fields, the trace of \<open>patchFunction\<close> is empty: no request carries an update
  mask, and the call is rejected before the mask would be built.
\<close>

theorem patchFunction_optional_fields_no_mask:
  "fst (patchFunction target0 descriptor_optional (Inr response0)) = [] \<and>
   snd (patchFunction target0 descriptor_optional (Inr response0)) =
     Rejected (ThrownReferenceError ''options'')"
  by (simp add: patchFunction_def)

section \<open>Listing\<close>

text \<open>
  C4. For every resource returned by a successful list call, the operation attaches a
  \<open>functionName\<close> equal to the substring of the resource's fully-qualified name after the
  final \<open>/\<close>, and resolves with the (possibly empty) sequence of resources, otherwise
  unchanged and in the order received.
\<close>

theorem listFunctions_functionName:
  "snd (listFunctions pid rgn (Inr resp)) =
     Resolved (map (\<lambda>f. f\<lparr>CloudFunction.functionName := Some (tail_segment (name f))\<rparr>)
                 (case body_functions (body resp) of Some fs \<Rightarrow> fs | None \<Rightarrow> []))"
  by (simp add: listFunctions_def tail_segment_def substring_lastIndexOf)

text \<open>
  C10. For every successful list response whose body has no \<open>functions\<close> field (or a null or
  undefined one), the list operation resolves with the empty array.
\<close>

theorem listFunctions_no_functions_field:
  "body_functions (body resp) = None \<Longrightarrow> snd (listFunctions pid rgn (Inr resp)) = Resolved []"
  by (simp add: listFunctions_def)

theorem listFunctions_no_functions_field_witness:
  "body_functions (body response0) = None \<and>
   snd (listFunctions ''proj'' ''us-central1'' (Inr response0)) = Resolved []"
proof -
  have h: "body_functions (body response0) = None"
    by (simp add: response0_def)
  show ?thesis
    using h listFunctions_no_functions_field [OF h, of "''proj''" "''us-central1''"] by simp
qed

section \<open>Failures\<close>

text \<open>
  C5. Every create, patch or delete failure is claimed to log the quota-exceeded remediation
  message exactly when the nested response status code of the underlying error is 429, and the
  underlying error message otherwise. When the request of \<open>deleteFunction\<close> fails with
  status code 429, the rejection handler logs nothing, the quota message included: the trace
  holds the request alone, and the promise is rejected with the \<open>ReferenceError\<close> for
  \<open>logAndRejectOperation\<close>.
\<close>

theorem deleteFunction_failure_logs_nothing:
  "response_statusCode (error_context error429) = Some 429 \<and>
   log_lines (fst (deleteFunction options0 (Inl error429))) = [] \<and>
   deleteFunction options0 (Inl error429) =
     ([Request \<lparr>http_method = ''DELETE'',
                path = ''/v1/projects/proj/locations/us-central1/functions/foo'',
                auth = True, json = None, retryCodes = None, updateMask = None, data = None\<rparr>],
      Rejected (ThrownReferenceError ''logAndRejectOperation''))"
  by (simp add: deleteFunction_def Let_def options0_def error429_def API_VERSION_def)

text \<open>
  C6. For every failure of \<open>generateUploadUrl\<close> and of \<open>getOperation\<close>, the operation logs
  its diagnostic lines after the request and rejects with the original error itself, neither
  wrapped nor replaced.
\<close>

theorem rethrow_original_error:
  "generateUploadUrl pid loc (Inl err) =
     ([Request \<lparr>http_method = ''POST'',
                path = ''/v1/projects/'' @ pid @ ''/locations/'' @ loc
                         @ ''/functions:generateUploadUrl'',
                auth = True, json = Some False, retryCodes = Some [503], updateMask = None,
                data = None\<rparr>,
       Log Info ERR_GENERATE_UPLOAD_URL_FAILURE_MESSAGE],
      Rejected (ThrownError err)) \<and>
   getOperation target_name (Inl err) =
     ([Request \<lparr>http_method = ''GET'', path = ''/v1/'' @ target_name,
                auth = True, json = None, retryCodes = None, updateMask = None, data = None\<rparr>,
       Log Debug (''[functions] failed to get status of operation: '' @ target_name),
       Log Debug (''[functions] '' @ message err)],
      Rejected (ThrownError err))"
  by (simp add: generateUploadUrl_def getOperation_def makePath_def API_VERSION_def)

text \<open>
  C7. A failing create, patch or delete call is claimed to fail with the typed error
  "Failed to <operationType> function <functionName>" that carries the original error and a
  context naming the function. \<open>createFunction\<close> throws the promise returned by
  \<open>makeFirebaseError\<close> without awaiting it: its own promise is rejected with a promise object,
  and the typed error is only the reason that inner promise is rejected with.
\<close>

theorem createFunction_rejects_with_promise:
  "snd (createFunction (\<lambda>s. s) target0 descriptor0 (Inl error429)) =
     Rejected (ThrownPromise (ThrownError
       (FirebaseError ''Failed to create function foo'' (Some error429)
          (ErrorContext None (Some ''foo'')))))"
  by (simp add: createFunction_def makeFirebaseError_def descriptor0_def)

section \<open>Results of patch and delete\<close>

text \<open>
  C8. Every successful patch call and every successful delete call is claimed to return a
  record with the target identifier, \<open>done\<close> equal to false, \<open>name\<close> equal to the \<open>name\<close>
  field of the body of the server's response, and \<open>type\<close> equal to "update" for patch and
  "delete" for delete. No patch call returns a record: also when the HTTP helper would answer
  with a response, \<open>patchFunction\<close> issues no request, logs nothing and is rejected with the
  \<open>ReferenceError\<close> for \<open>options\<close>.
\<close>

theorem patchFunction_returns_no_record:
  "patchFunction target0 descriptor0 (Inr response0) =
     ([], Rejected (ThrownReferenceError ''options''))"
  by (simp add: patchFunction_def)

end
